theory Spec2Isabelle
  imports Complex_Main "HOL-Library.Word"
begin

section \<open>Python values, exceptions and string functions\<close>

text \<open>
  The harness is two Python files: \<^verbatim>\<open>camera_controller.py\<close> (class CameraController) and
  \<^verbatim>\<open>test_camera_output.py\<close> (class CameraTests, \<^verbatim>\<open>list_cameras\<close> and the script body).
  Strings are byte lists and the string functions below are the ASCII behaviour of the
  Python ones. An exception is a value of \<open>py_error\<close>; a computation that can raise
  returns \<open>py_error + 'a\<close>.
\<close>

datatype py_error =
    AssertionError string
  | JSONDecodeError
  | KeyError
  | IndexError
  | TypeError
  | SyntaxError
  | ZeroDivisionError
  | ValueError

definition bind_result :: "py_error + 'a \<Rightarrow> ('a \<Rightarrow> py_error + 'b) \<Rightarrow> py_error + 'b" where
  "bind_result m f = (case m of Inl err \<Rightarrow> Inl err | Inr v \<Rightarrow> f v)"

definition digit_char :: "nat \<Rightarrow> char" where
  "digit_char d = ''0123456789'' ! d"

fun str_nat :: "nat \<Rightarrow> string" where
  "str_nat n = (if n < 10 then [digit_char n] else str_nat (n div 10) @ [digit_char (n mod 10)])"

declare str_nat.simps [simp del]

text \<open>\<^verbatim>\<open>str(i)\<close> and the \<^verbatim>\<open>{i}\<close> of an f-string, for an int.\<close>

definition str_int :: "int \<Rightarrow> string" where
  "str_int i = (if i < 0 then CHR ''-'' # str_nat (nat (- i)) else str_nat (nat i))"

definition is_digit :: "char \<Rightarrow> bool" where
  "is_digit c = (c \<in> set ''0123456789'')"

definition digit_val :: "char \<Rightarrow> nat" where
  "digit_val c = length (takeWhile (\<lambda>d. d \<noteq> c) ''0123456789'')"

definition nat_of_digits :: "string \<Rightarrow> nat" where
  "nat_of_digits ds = foldl (\<lambda>acc c. 10 * acc + digit_val c) 0 ds"

text \<open>\<^verbatim>\<open>str.isspace\<close> on ASCII: tab, LF, VT, FF, CR, the separators 0x1C-0x1F, space.\<close>

definition is_space :: "char \<Rightarrow> bool" where
  "is_space c = (c \<in> set [CHR 0x09, CHR 0x0A, CHR 0x0B, CHR 0x0C, CHR 0x0D,
                           CHR 0x1C, CHR 0x1D, CHR 0x1E, CHR 0x1F, CHR 0x20])"

definition strip :: "string \<Rightarrow> string" where
  "strip s = rev (dropWhile is_space (rev (dropWhile is_space s)))"

definition lower_char :: "char \<Rightarrow> char" where
  "lower_char c =
     (case map_of (zip ''ABCDEFGHIJKLMNOPQRSTUVWXYZ'' ''abcdefghijklmnopqrstuvwxyz'') c of
        None \<Rightarrow> c
      | Some l \<Rightarrow> l)"

definition lower :: "string \<Rightarrow> string" where
  "lower s = map lower_char s"

text \<open>\<^verbatim>\<open>needle in hay\<close> for two strings.\<close>

primrec py_in :: "string \<Rightarrow> string \<Rightarrow> bool" where
  "py_in needle [] = (needle = [])"
| "py_in needle (c # cs) = (take (length needle) (c # cs) = needle \<or> py_in needle cs)"

text \<open>\<^verbatim>\<open>s.split(sep)\<close> for a one-character separator: never an empty list.\<close>

fun split_char :: "char \<Rightarrow> string \<Rightarrow> string list" where
  "split_char sep [] = [[]]"
| "split_char sep (c # cs) =
     (if c = sep then [] # split_char sep cs
      else (case split_char sep cs of
              [] \<Rightarrow> [[c]]
            | w # ws \<Rightarrow> (c # w) # ws))"

text \<open>\<^verbatim>\<open>sep.join(xs)\<close>.\<close>

fun py_join :: "string \<Rightarrow> string list \<Rightarrow> string" where
  "py_join sep [] = []"
| "py_join sep [x] = x"
| "py_join sep (x # y # ys) = x @ sep @ py_join sep (y # ys)"

text \<open>\<^verbatim>\<open>os.path.join(a, b)\<close> of posixpath, for two components.\<close>

definition os_path_join :: "string \<Rightarrow> string \<Rightarrow> string" where
  "os_path_join a b =
     (if take 1 b = ''/'' then b
      else if a = [] \<or> last a = CHR ''/'' then a @ b
      else a @ ''/'' @ b)"

text \<open>
  \<^verbatim>\<open>int(s)\<close> for a string: surrounding whitespace is dropped, one sign is allowed, and
  the digits may be grouped by single underscores. Anything else is a ValueError.
\<close>

fun digit_groups :: "string \<Rightarrow> bool" where
  "digit_groups [] = False"
| "digit_groups [c] = is_digit c"
| "digit_groups (c # d # cs) =
     (is_digit c \<and> (if d = CHR ''_'' then digit_groups cs else digit_groups (d # cs)))"

definition py_int :: "string \<Rightarrow> py_error + int" where
  "py_int s =
     (let t = strip s;
          body = (if take 1 t = ''-'' \<or> take 1 t = ''+'' then drop 1 t else t)
      in if digit_groups body
         then (let n = int (nat_of_digits (filter (\<lambda>c. c \<noteq> CHR ''_'') body))
               in Inr (if take 1 t = ''-'' then - n else n))
         else Inl ValueError)"

text \<open>
  \<^verbatim>\<open>eval(s)\<close> on the expressions the prober prints for a rate with \<^verbatim>\<open>%d/%d\<close>: a decimal
  integer literal (no leading zero unless it is all zeros) with an optional minus sign, or
  two of them around one \<^verbatim>\<open>/\<close>. True division gives a float; the model keeps the
  exact quotient. A string outside this grammar is reported as a SyntaxError: what
  \<^verbatim>\<open>eval\<close> does with other Python expressions is outside the model.
\<close>

definition py_int_literal :: "string \<Rightarrow> int option" where
  "py_int_literal ds =
     (if ds \<noteq> [] \<and> list_all is_digit ds \<and> (take 1 ds \<noteq> ''0'' \<or> list_all (\<lambda>c. c = CHR ''0'') ds)
      then Some (int (nat_of_digits ds))
      else None)"

definition py_operand :: "string \<Rightarrow> int option" where
  "py_operand s =
     (if take 1 s = ''-'' then map_option uminus (py_int_literal (drop 1 s))
      else py_int_literal s)"

definition py_eval :: "string \<Rightarrow> py_error + rat" where
  "py_eval s =
     (let a = takeWhile (\<lambda>c. c \<noteq> CHR ''/'') s;
          r = dropWhile (\<lambda>c. c \<noteq> CHR ''/'') s
      in case py_operand a of
           None \<Rightarrow> Inl SyntaxError
         | Some n \<Rightarrow>
             (if r = [] then Inr (of_int n)
              else (case py_operand (drop 1 r) of
                      None \<Rightarrow> Inl SyntaxError
                    | Some d \<Rightarrow> if d = 0 then Inl ZeroDivisionError else Inr (of_int n / of_int d))))"

subsection \<open>Decoded JSON and subscripting\<close>

text \<open>
  What \<^verbatim>\<open>json.loads\<close> returns. An object is the list of the items of the resulting
  dict, so its keys are distinct; a number is kept as a rational.
\<close>

datatype json =
    JNull
  | JBool bool
  | JNumber rat
  | JString string
  | JArray "json list"
  | JObject "(string \<times> json) list"

text \<open>\<^verbatim>\<open>v[key]\<close> with a string key: only a dict has string keys.\<close>

fun getitem_key :: "json \<Rightarrow> string \<Rightarrow> py_error + json" where
  "getitem_key (JObject kvs) k = (case map_of kvs k of None \<Rightarrow> Inl KeyError | Some v \<Rightarrow> Inr v)"
| "getitem_key v k = Inl TypeError"

text \<open>
  \<^verbatim>\<open>v[0]\<close>: the first element of a list, the first character of a string, a KeyError on
  a dict (a decoded JSON object has string keys only), a TypeError on the rest.
\<close>

fun getitem_0 :: "json \<Rightarrow> py_error + json" where
  "getitem_0 (JArray []) = Inl IndexError"
| "getitem_0 (JArray (x # xs)) = Inr x"
| "getitem_0 (JString []) = Inl IndexError"
| "getitem_0 (JString (c # cs)) = Inr (JString [c])"
| "getitem_0 (JObject kvs) = Inl KeyError"
| "getitem_0 v = Inl TypeError"

text \<open>\<^verbatim>\<open>eval(v)\<close> of a decoded JSON value: only a string is evaluated.\<close>

fun eval_json :: "json \<Rightarrow> py_error + rat" where
  "eval_json (JString s) = py_eval s"
| "eval_json v = Inl TypeError"

section \<open>The outside world\<close>

text \<open>
  Everything the harness reads from outside is an oracle of \<open>env\<close>, indexed where it can
  change by the number of blocking waits (a finished subprocess, a sleep) so far:
  the clock, the files the external tools leave behind, the tools' outputs, the decoders,
  the environment variables and the line typed at the prompt. The model covers the runs
  in which every external tool can be started and the log file can be opened; a tool that
  is started always returns its exit code and its two output streams.
  The prober and the image decoder only read: their answer is a function of their
  arguments and of the bytes of the file they are pointed at. \<^verbatim>\<open>json.loads\<close> is a
  library function and is an oracle too (None stands for JSONDecodeError).
  Directories are not modelled: \<^verbatim>\<open>os.makedirs(..., exist_ok=True)\<close> leaves no trace
  here. The log files of the harness are kept apart from the files the tools produce:
  a log path ends in \<^verbatim>\<open>_log.txt\<close>, an image path in \<^verbatim>\<open>.jpg\<close> and a video path in
  \<^verbatim>\<open>.mp4\<close>, so they never name the same file.
\<close>

record proc_result =
  returncode :: int
  proc_stdout :: string
  proc_stderr :: string

text \<open>A decoded image: \<open>shape0\<close> rows, \<open>shape1\<close> columns, and its uint8 elements.\<close>

record image =
  shape0 :: nat
  shape1 :: nat
  elements :: "8 word list"

datatype imread_flag = IMREAD_COLOR | IMREAD_GRAYSCALE

record env =
  strftime_now :: "nat \<Rightarrow> string \<Rightarrow> string"
  file_at :: "nat \<Rightarrow> string \<Rightarrow> string option"
  subprocess_run :: "nat \<Rightarrow> string list \<Rightarrow> proc_result"
  popen_shell :: "nat \<Rightarrow> string \<Rightarrow> string \<times> string"
  ffprobe :: "string list \<Rightarrow> string option \<Rightarrow> proc_result"
  imdecode :: "imread_flag \<Rightarrow> string \<Rightarrow> image option"
  json_loads :: "string \<Rightarrow> json option"
  getenv :: "string \<Rightarrow> string option"
  user_input :: string

text \<open>
  What the harness itself changes: the log files it writes (a file is the list of the
  writes made to it; a write of \<^verbatim>\<open>log\<close> keeps its timestamp and its message apart),
  the lines it prints, the number of blocking waits and the seconds slept.
\<close>

datatype chunk = Text string | Entry string string

record state =
  logs :: "string \<rightharpoonup> chunk list"
  printed :: "string list"
  tick :: nat
  slept :: nat

fun bytes_of :: "chunk \<Rightarrow> string" where
  "bytes_of (Text s) = s"
| "bytes_of (Entry stamp message) = stamp @ '' - '' @ message @ ''\<newline>''"

definition file_bytes :: "chunk list \<Rightarrow> string" where
  "file_bytes cs = concat (map bytes_of cs)"

fun messages_of :: "chunk list \<Rightarrow> string list" where
  "messages_of [] = []"
| "messages_of (Text s # cs) = messages_of cs"
| "messages_of (Entry stamp message # cs) = message # messages_of cs"

definition py_print :: "string \<Rightarrow> state \<Rightarrow> state" where
  "py_print message s = s\<lparr>printed := printed s @ [message]\<rparr>"

definition time_sleep :: "nat \<Rightarrow> state \<Rightarrow> state" where
  "time_sleep seconds s = s\<lparr>tick := Suc (tick s), slept := slept s + seconds\<rparr>"

text \<open>
  \<^verbatim>\<open>os.path.exists(p)\<close>, and \<^verbatim>\<open>os.path.exists(p) and os.path.getsize(p) > 0\<close>
  (the size is only asked of a file that exists), at the time \<open>now\<close>: the number of
  blocking waits so far.
\<close>

definition os_path_exists :: "env \<Rightarrow> nat \<Rightarrow> string \<Rightarrow> bool" where
  "os_path_exists e now p = (file_at e now p \<noteq> None)"

definition exists_nonempty :: "env \<Rightarrow> nat \<Rightarrow> string \<Rightarrow> bool" where
  "exists_nonempty e now p = (case file_at e now p of None \<Rightarrow> False | Some b \<Rightarrow> length b > 0)"

text \<open>\<^verbatim>\<open>cv2.imread(path, flag)\<close>: None for a missing or undecodable file.\<close>

definition cv2_imread :: "env \<Rightarrow> nat \<Rightarrow> string \<Rightarrow> imread_flag \<Rightarrow> image option" where
  "cv2_imread e now p flag = (case file_at e now p of None \<Rightarrow> None | Some b \<Rightarrow> imdecode e flag b)"

text \<open>
  \<^verbatim>\<open>np.mean(img)\<close> over all elements; None stands for nan (no element). The mean is
  kept as the exact quotient: the float64 sum of uint8 values is exact for any image that
  fits in memory, and the rounded quotient compares with the integers 50 and 200 as the
  exact one does.
\<close>

definition np_mean :: "8 word list \<Rightarrow> rat option" where
  "np_mean xs = (if xs = [] then None else Some (of_nat (sum_list (map unat xs)) / of_nat (length xs)))"

section \<open>camera\_controller.py\<close>

record CameraController =
  device :: string
  output_dir :: string

definition CameraController_init :: "string \<Rightarrow> string \<Rightarrow> CameraController" where
  "CameraController_init dev outd = \<lparr>device = dev, output_dir = outd\<rparr>"

definition CameraController_capture_image ::
  "env \<Rightarrow> CameraController \<Rightarrow> string \<Rightarrow> state \<Rightarrow> string \<times> state" where
  "CameraController_capture_image e c filename s =
     (let output_path = os_path_join (output_dir c) filename;
          command = [''ffmpeg'', ''-y'', ''-f'', ''video4linux2'', ''-i'', device c,
                     ''-frames:v'', ''1'', output_path];
          result = subprocess_run e (tick s) command
      in (if returncode result = 0 then output_path else proc_stderr result,
          s\<lparr>tick := Suc (tick s)\<rparr>))"

definition record_video_command :: "CameraController \<Rightarrow> int \<Rightarrow> string \<Rightarrow> string list" where
  "record_video_command c dur output_path =
     [''/usr/bin/ffmpeg'', ''-f'', ''v4l2'', ''-input_format'', ''mjpeg'', ''-video_size'', ''640x480'',
      ''-framerate'', ''30'', ''-t'', str_int dur, ''-i'', device c, ''-c:v'', ''libx264'',
      ''-preset'', ''ultrafast'', ''-pix_fmt'', ''yuv420p'', output_path]"

definition CameraController_record_video ::
  "env \<Rightarrow> CameraController \<Rightarrow> int \<Rightarrow> string \<Rightarrow> state \<Rightarrow> string \<times> state" where
  "CameraController_record_video e c dur filename s =
     (let output_path = os_path_join (output_dir c) filename;
          command = record_video_command c dur output_path;
          (stdout, stderr) = popen_shell e (tick s) (py_join '' '' command);
          s1 = s\<lparr>tick := Suc (tick s)\<rparr>
      in (if exists_nonempty e (tick s1) output_path then output_path
          else ''Failed to record video. FFmpeg output:\<newline>STDOUT: '' @ stdout
               @ ''\<newline>STDERR: '' @ stderr,
          s1))"

section \<open>test\_camera\_output.py: class CameraTests\<close>

record CameraTests =
  camera_device :: string
  fps :: int
  duration :: int
  tests_output_dir :: string
  log_dir :: string
  timestamp :: string
  image_path :: string
  video_path :: string
  log_path :: string
  camera :: CameraController

text \<open>The constructor: opening the log file in mode \<^verbatim>\<open>w\<close> replaces whatever was there.\<close>

definition CameraTests_init ::
  "env \<Rightarrow> string \<Rightarrow> int \<Rightarrow> int \<Rightarrow> string \<Rightarrow> string \<Rightarrow> state \<Rightarrow> CameraTests \<times> state" where
  "CameraTests_init e dev f dur outd logd s =
     (let ts = strftime_now e (tick s) ''%Y%m%d_%H%M%S'';
          t = \<lparr>camera_device = dev, fps = f, duration = dur, tests_output_dir = outd,
               log_dir = logd, timestamp = ts,
               image_path = os_path_join outd (''image_'' @ ts @ ''.jpg''),
               video_path = os_path_join outd (''video_'' @ ts @ ''.mp4''),
               log_path = os_path_join logd (ts @ ''_log.txt''),
               camera = CameraController_init dev outd\<rparr>
      in (t, s\<lparr>logs := (logs s)(log_path t \<mapsto>
                 [Text (''Audit Log - Test Session '' @ ts @ '' - Camera: '' @ dev @ ''\<newline>''),
                  Text (replicate 50 CHR ''='' @ ''\<newline>'')])\<rparr>))"

text \<open>Mode \<^verbatim>\<open>a\<close>: a missing file is created, an existing one is extended.\<close>

definition log_file :: "CameraTests \<Rightarrow> state \<Rightarrow> chunk list" where
  "log_file t s = (case logs s (log_path t) of None \<Rightarrow> [] | Some cs \<Rightarrow> cs)"

definition log :: "env \<Rightarrow> CameraTests \<Rightarrow> string \<Rightarrow> state \<Rightarrow> state" where
  "log e t message s =
     py_print message
       (s\<lparr>logs := (logs s)(log_path t \<mapsto>
              log_file t s @ [Entry (strftime_now e (tick s) ''%Y-%m-%d %H:%M:%S'') message])\<rparr>)"

text \<open>The messages of the entries of the session's log file, oldest first.\<close>

definition logged :: "CameraTests \<Rightarrow> state \<Rightarrow> string list" where
  "logged t s = messages_of (log_file t s)"

definition py_assert :: "bool \<Rightarrow> string \<Rightarrow> py_error + unit" where
  "py_assert condition message = (if condition then Inr () else Inl (AssertionError message))"

definition assert_test :: "env \<Rightarrow> CameraTests \<Rightarrow> bool \<Rightarrow> string \<Rightarrow> state \<Rightarrow> py_error + state" where
  "assert_test e t condition message s =
     (case py_assert condition message of
        Inr u \<Rightarrow> Inr (log e t (''PASS: '' @ message) s)
      | Inl (AssertionError m) \<Rightarrow> Inr (log e t (''FAIL: '' @ message) s)
      | Inl err \<Rightarrow> Inl err)"

definition CameraTests_record_video :: "env \<Rightarrow> CameraTests \<Rightarrow> state \<Rightarrow> state" where
  "CameraTests_record_video e t s =
     (let s1 = log e t (''Starting video recording on '' @ camera_device t @ '': ''
                        @ str_int (duration t) @ ''s at '' @ str_int (fps t) @ '' FPS...'') s;
          (returned, s2) = CameraController_record_video e (camera t) (duration t)
                             (''video_'' @ timestamp t @ ''.mp4'') s1
      in log e t ''Recording complete.'' s2)"

text \<open>The retry loop of \<^verbatim>\<open>capture_image\<close> over the attempts still to make.\<close>

fun capture_image_loop :: "env \<Rightarrow> CameraTests \<Rightarrow> nat list \<Rightarrow> state \<Rightarrow> bool \<times> state" where
  "capture_image_loop e t [] s = (False, log e t ''Image capture failed after retries.'' s)"
| "capture_image_loop e t (attempt # rest) s =
     (let s1 = time_sleep 1 s
      in if exists_nonempty e (tick s1) (image_path t)
         then (True, log e t ''Image captured successfully.'' s1)
         else capture_image_loop e t rest
                (log e t (''Retrying image capture... Attempt '' @ str_nat (attempt + 1)) s1))"

definition CameraTests_capture_image :: "env \<Rightarrow> CameraTests \<Rightarrow> state \<Rightarrow> bool \<times> state" where
  "CameraTests_capture_image e t s =
     (let s1 = log e t (''Capturing an image on '' @ camera_device t @ ''...'') s;
          (returned, s2) = CameraController_capture_image e (camera t)
                             (''image_'' @ timestamp t @ ''.jpg'') s1;
          max_retries = 3
      in capture_image_loop e t [0..<max_retries] s2)"

subsection \<open>Image tests\<close>

definition test_image_exists :: "env \<Rightarrow> CameraTests \<Rightarrow> state \<Rightarrow> bool" where
  "test_image_exists e t s = exists_nonempty e (tick s) (image_path t)"

definition test_image_validity :: "env \<Rightarrow> CameraTests \<Rightarrow> state \<Rightarrow> bool" where
  "test_image_validity e t s = (cv2_imread e (tick s) (image_path t) IMREAD_COLOR \<noteq> None)"

definition test_image_resolution ::
  "env \<Rightarrow> CameraTests \<Rightarrow> nat \<Rightarrow> nat \<Rightarrow> state \<Rightarrow> bool \<times> state" where
  "test_image_resolution e t expected_width expected_height s =
     (case cv2_imread e (tick s) (image_path t) IMREAD_COLOR of
        None \<Rightarrow> (False, log e t ''Skipping resolution test: Image cannot be loaded.'' s)
      | Some img \<Rightarrow> (shape1 img = expected_width \<and> shape0 img = expected_height, s))"

definition test_image_brightness :: "env \<Rightarrow> CameraTests \<Rightarrow> state \<Rightarrow> bool \<times> state" where
  "test_image_brightness e t s =
     (case cv2_imread e (tick s) (image_path t) IMREAD_GRAYSCALE of
        None \<Rightarrow> (False, log e t ''Skipping brightness test: Image cannot be loaded.'' s)
      | Some img \<Rightarrow>
          (case np_mean (elements img) of
             None \<Rightarrow> (False, s)
           | Some avg_brightness \<Rightarrow> (50 \<le> avg_brightness \<and> avg_brightness \<le> 200, s)))"

subsection \<open>Video tests\<close>

text \<open>Each probe is one finished subprocess: one more blocking wait.\<close>

definition run_ffprobe :: "env \<Rightarrow> CameraTests \<Rightarrow> string \<Rightarrow> string \<Rightarrow> state \<Rightarrow> proc_result \<times> state" where
  "run_ffprobe e t streams entries s =
     (ffprobe e [''ffprobe'', ''-v'', ''error'', ''-select_streams'', streams, ''-show_entries'',
                 entries, ''-of'', ''json'', video_path t]
        (file_at e (tick s) (video_path t)),
      s\<lparr>tick := Suc (tick s)\<rparr>)"

definition test_video_exists :: "env \<Rightarrow> CameraTests \<Rightarrow> state \<Rightarrow> bool" where
  "test_video_exists e t s = os_path_exists e (tick s) (video_path t)"

definition test_video_validity :: "env \<Rightarrow> CameraTests \<Rightarrow> state \<Rightarrow> bool \<times> state" where
  "test_video_validity e t s =
     (let (result, s1) = run_ffprobe e t ''v:0'' ''stream=width,height'' s
      in (py_in ''\"width\"'' (proc_stdout result) \<and> py_in ''\"height\"'' (proc_stdout result), s1))"

text \<open>The body of the \<^verbatim>\<open>try\<close> block of \<^verbatim>\<open>test_video_fps\<close>, and the rate it derives.\<close>

definition probed_rate :: "env \<Rightarrow> string \<Rightarrow> py_error + rat" where
  "probed_rate e out =
     bind_result (case json_loads e out of None \<Rightarrow> Inl JSONDecodeError | Some j \<Rightarrow> Inr j)
       (\<lambda>output_json. bind_result (getitem_key output_json ''streams'')
         (\<lambda>streams. bind_result (getitem_0 streams)
           (\<lambda>stream. bind_result (getitem_key stream ''r_frame_rate'')
             (\<lambda>fps_str. eval_json fps_str))))"

definition test_video_fps_try :: "env \<Rightarrow> CameraTests \<Rightarrow> string \<Rightarrow> py_error + bool" where
  "test_video_fps_try e t out =
     bind_result (probed_rate e out) (\<lambda>rate. Inr (\<bar>rate - of_int (fps t)\<bar> \<le> 1))"

definition test_video_fps :: "env \<Rightarrow> CameraTests \<Rightarrow> state \<Rightarrow> bool \<times> state" where
  "test_video_fps e t s =
     (let (result, s1) = run_ffprobe e t ''v:0'' ''stream=r_frame_rate'' s
      in (case test_video_fps_try e t (proc_stdout result) of
            Inr verdict \<Rightarrow> (verdict, s1)
          | Inl err \<Rightarrow> (False, s1)))"

definition test_video_audio :: "env \<Rightarrow> CameraTests \<Rightarrow> state \<Rightarrow> bool \<times> state" where
  "test_video_audio e t s =
     (let (result, s1) = run_ffprobe e t ''a:0'' ''stream=codec_name'' s
      in (py_in ''codec_name'' (proc_stdout result), s1))"

subsection \<open>run\_tests\<close>

definition run_image_tests :: "env \<Rightarrow> CameraTests \<Rightarrow> state \<Rightarrow> py_error + state" where
  "run_image_tests e t s =
     (let s1 = log e t ''Running Image Tests...'' s
      in bind_result (assert_test e t (test_image_exists e t s1) ''Image exists'' s1)
        (\<lambda>s2. bind_result (assert_test e t (test_image_validity e t s2) ''Image is a valid JPEG file'' s2)
          (\<lambda>s3. let (resolution_ok, s4) = test_image_resolution e t 1280 720 s3
                in bind_result (assert_test e t resolution_ok ''Image resolution is correct'' s4)
                  (\<lambda>s5. let (brightness_ok, s6) = test_image_brightness e t s5
                        in assert_test e t brightness_ok ''Image brightness is acceptable'' s6))))"

definition run_video_tests :: "env \<Rightarrow> CameraTests \<Rightarrow> state \<Rightarrow> py_error + state" where
  "run_video_tests e t s =
     (let s1 = log e t ''Running Video Tests...'' s
      in bind_result (assert_test e t (test_video_exists e t s1) ''Video file exists'' s1)
        (\<lambda>s2. let (valid, s3) = test_video_validity e t s2
              in bind_result (assert_test e t valid ''Video is a valid file'' s3)
                (\<lambda>s4. let (fps_ok, s5) = test_video_fps e t s4
                      in bind_result (assert_test e t fps_ok ''Video FPS is correct'' s5)
                        (\<lambda>s6. let (audio, s7) = test_video_audio e t s6
                              in assert_test e t audio ''Audio track detected in video'' s7))))"

text \<open>
  \<^verbatim>\<open>run_tests\<close>, in the order of its statements; \<open>run_image_tests\<close> is its \<^verbatim>\<open>else\<close>
  branch and \<open>run_video_tests\<close> the statements from \<^verbatim>\<open>Running Video Tests...\<close> to the
  last check.
\<close>

definition run_tests :: "env \<Rightarrow> CameraTests \<Rightarrow> state \<Rightarrow> py_error + state" where
  "run_tests e t s =
     (let s1 = log e t (''Running Tests on Camera: '' @ camera_device t) s;
          (captured, s2) = CameraTests_capture_image e t s1
      in bind_result
           (if \<not> captured then Inr (log e t ''Skipping image tests due to failed capture.'' s2)
            else run_image_tests e t s2)
           (\<lambda>s3. bind_result (run_video_tests e t (CameraTests_record_video e t s3))
             (\<lambda>s4. Inr (log e t ''Test session completed.'' s4))))"

section \<open>test\_camera\_output.py: the script\<close>

definition list_cameras :: "env \<Rightarrow> state \<Rightarrow> string list \<times> state" where
  "list_cameras e s =
     (let result = subprocess_run e (tick s) [''v4l2-ctl'', ''--list-devices'']
      in (map strip (filter (py_in ''/dev/video'') (split_char CHR ''\<newline>'' (proc_stdout result))),
          s\<lparr>tick := Suc (tick s)\<rparr>))"

text \<open>
  How the script ends: \<^verbatim>\<open>exit(n)\<close> or the end of the file (status 0), or an exception
  that nothing catches.
\<close>

datatype exit_status = Exit int | Uncaught py_error

text \<open>
  An outcome of the script: how it ended, the CameraTests objects it constructed, in
  order, and the final state.
\<close>

type_synonym outcome = "exit_status \<times> CameraTests list \<times> state"

text \<open>\<^verbatim>\<open>tester = CameraTests(camera_device=cam); tester.run_tests()\<close> with the default arguments.\<close>

definition construct_and_run :: "env \<Rightarrow> string \<Rightarrow> state \<Rightarrow> CameraTests \<times> (py_error + state)" where
  "construct_and_run e cam s =
     (let (tester, s1) = CameraTests_init e cam 30 5 ''captures'' ''logs'' s
      in (tester, run_tests e tester s1))"

fun test_all :: "env \<Rightarrow> string list \<Rightarrow> CameraTests list \<Rightarrow> state \<Rightarrow> outcome" where
  "test_all e [] constructed s = (Exit 0, constructed, s)"
| "test_all e (cam # cams) constructed s =
     (case construct_and_run e cam s of
        (tester, Inr s1) \<Rightarrow> test_all e cams (constructed @ [tester]) s1
      | (tester, Inl err) \<Rightarrow> (Uncaught err, constructed @ [tester], s))"

definition run_selected :: "env \<Rightarrow> string \<Rightarrow> state \<Rightarrow> outcome" where
  "run_selected e cam s =
     (case construct_and_run e cam s of
        (tester, Inr s1) \<Rightarrow> (Exit 0, [tester], s1)
      | (tester, Inl err) \<Rightarrow> (Uncaught err, [tester], s))"

text \<open>\<^verbatim>\<open>if v:\<close> for the result of \<^verbatim>\<open>os.getenv\<close>: None and the empty string are false.\<close>

definition truthy :: "string option \<Rightarrow> bool" where
  "truthy v = (case v of None \<Rightarrow> False | Some x \<Rightarrow> x \<noteq> [])"

definition print_cameras :: "string list \<Rightarrow> state \<Rightarrow> state" where
  "print_cameras cameras s =
     fold (\<lambda>(i, cam). py_print (str_nat (i + 1) @ ''. '' @ cam)) (enumerate 0 cameras) s"

definition interactive :: "env \<Rightarrow> string list \<Rightarrow> state \<Rightarrow> outcome" where
  "interactive e cameras s =
     (let choice = strip (user_input e)
      in if lower choice = ''all'' then test_all e cameras [] s
         else (case py_int choice of
                 Inl ValueError \<Rightarrow> (Exit 1, [], py_print ''Invalid input.'' s)
               | Inl err \<Rightarrow> (Uncaught err, [], s)
               | Inr n \<Rightarrow>
                   (let cam_index = n - 1
                    in if cam_index < 0 \<or> cam_index \<ge> int (length cameras)
                       then (Exit 1, [], py_print ''Invalid selection.'' s)
                       else run_selected e (cameras ! nat cam_index) s)))"

definition main :: "env \<Rightarrow> state \<Rightarrow> outcome" where
  "main e s =
     (let (cameras, s1) = list_cameras e s
      in if cameras = [] then (Exit 1, [], py_print ''No cameras detected.'' s1)
         else
           (let s2 = print_cameras cameras (py_print ''Available Cameras:'' s1);
                camera_device = getenv e ''CAMERA_DEVICE''
            in if truthy camera_device
               then run_selected e (the camera_device)
                      (py_print (''Using camera from environment variable: '' @ the camera_device) s2)
               else if truthy (getenv e ''RUNNING_IN_DOCKER'')
               then run_selected e (hd cameras)
                      (py_print (''Running in Docker: Auto-selected '' @ hd cameras) s2)
               else interactive e cameras s2))"

section \<open>A concrete world for running the definitions\<close>

definition demo_env :: env where
  "demo_env =
     \<lparr>strftime_now = (\<lambda>n fmt. if fmt = ''%Y%m%d_%H%M%S'' then ''20250101_120000''
                                else ''2025-01-01 12:00:00''),
      file_at = (\<lambda>n p. if p = ''captures/video_20250101_120000.mp4'' then Some ''mdat'' else None),
      subprocess_run = (\<lambda>n cmd. \<lparr>returncode = 1, proc_stdout = [], proc_stderr = ''no such device''\<rparr>),
      popen_shell = (\<lambda>n cmd. ([], ''frame=  150'')),
      ffprobe = (\<lambda>args f. \<lparr>returncode = 0, proc_stdout = ''{}'', proc_stderr = []\<rparr>),
      imdecode = (\<lambda>flag b. None),
      json_loads = (\<lambda>out. None),
      getenv = (\<lambda>name. None),
      user_input = ''7''\<rparr>"

definition demo_state :: state where
  "demo_state = \<lparr>logs = Map.empty, printed = [], tick = 0, slept = 0\<rparr>"

definition demo_tests :: CameraTests where
  "demo_tests = fst (CameraTests_init demo_env ''/dev/video0'' 30 5 ''captures'' ''logs'' demo_state)"

definition pixel_env :: "8 word \<Rightarrow> env" where
  "pixel_env v = demo_env\<lparr>file_at := (\<lambda>n p. Some ''JFIF''),
                            imdecode := (\<lambda>flag b. Some \<lparr>shape0 = 480, shape1 = 640, elements = [v, v]\<rparr>)\<rparr>"

definition offline_env :: env where
  "offline_env = demo_env\<lparr>file_at := (\<lambda>n p. None)\<rparr>"

definition listing_env :: "string \<Rightarrow> env" where
  "listing_env typed =
     demo_env\<lparr>subprocess_run := (\<lambda>n cmd. \<lparr>returncode = 0,
                    proc_stdout = ''USB Camera (usb-0000:00:14.0-1):\<newline>\<newline>/dev/video0\<newline>\<newline>/dev/video1\<newline>\<newline>'',
                    proc_stderr = []\<rparr>),
               user_input := typed\<rparr>"


section \<open>Logging and the capture phase\<close>

text \<open>The three files of a session have different names.\<close>

lemma last_os_path_join: "b \<noteq> [] \<Longrightarrow> last (os_path_join a b) = last b"
  by (simp add: os_path_join_def)

lemma session_paths_distinct:
  assumes "CameraTests_init e dev f dur outd logd s = (t, s')"
  shows "log_path t \<noteq> image_path t \<and> log_path t \<noteq> video_path t \<and> image_path t \<noteq> video_path t"
proof -
  from assms have t: "t = fst (CameraTests_init e dev f dur outd logd s)" by simp
  have "last (log_path t) = CHR ''t''" "last (image_path t) = CHR ''g''" "last (video_path t) = CHR ''4''"
    unfolding t by (simp_all add: CameraTests_init_def Let_def last_os_path_join)
  then show ?thesis by auto
qed


lemma messages_of_append: "messages_of (xs @ ys) = messages_of xs @ messages_of ys"
  by (induction xs rule: messages_of.induct) simp_all

lemma logged_log: "logged t (log e t m s) = logged t s @ [m]"
  by (simp add: logged_def log_def log_file_def py_print_def messages_of_append)

lemma tick_log: "tick (log e t m s) = tick s"
  by (simp add: log_def py_print_def)

lemma slept_log: "slept (log e t m s) = slept s"
  by (simp add: log_def py_print_def)

lemma printed_log: "printed (log e t m s) = printed s @ [m]"
  by (simp add: log_def py_print_def)

lemma assert_test_logs:
  "assert_test e t c m s = Inr (log e t ((if c then ''PASS: '' else ''FAIL: '') @ m) s)"
  by (simp add: assert_test_def py_assert_def)

lemma logged_time_sleep: "logged t (time_sleep n s) = logged t s"
  by (simp add: logged_def log_file_def time_sleep_def)

lemma logged_tick_update: "logged t (s\<lparr>tick := n\<rparr>) = logged t s"
  by (simp add: logged_def log_file_def)

lemma controller_record_video_state:
  "snd (CameraController_record_video e c dur f s) = s\<lparr>tick := Suc (tick s)\<rparr>"
  by (simp add: CameraController_record_video_def Let_def split: prod.splits)

lemma controller_capture_image_state:
  "snd (CameraController_capture_image e c f s) = s\<lparr>tick := Suc (tick s)\<rparr>"
  by (simp add: CameraController_capture_image_def Let_def)

lemma record_video_logged:
  "logged t (CameraTests_record_video e t s) =
     logged t s @ [''Starting video recording on '' @ camera_device t @ '': ''
                     @ str_int (duration t) @ ''s at '' @ str_int (fps t) @ '' FPS...'',
                   ''Recording complete.'']"
  by (simp add: CameraTests_record_video_def Let_def split_beta controller_record_video_state
        logged_log logged_tick_update)

lemma record_video_tick: "tick (CameraTests_record_video e t s) = Suc (tick s)"
  by (simp add: CameraTests_record_video_def Let_def split_beta controller_record_video_state tick_log)

lemma record_video_slept: "slept (CameraTests_record_video e t s) = slept s"
  by (simp add: CameraTests_record_video_def Let_def split_beta controller_record_video_state slept_log)

lemma tick_time_sleep: "tick (time_sleep n s) = Suc (tick s)"
  by (simp add: time_sleep_def)

lemma slept_time_sleep: "slept (time_sleep n s) = slept s + n"
  by (simp add: time_sleep_def)


lemma capture_loop_fails:
  "(\<And>k. k < length as \<Longrightarrow> \<not> exists_nonempty e (tick s + 1 + k) (image_path t)) \<Longrightarrow>
   fst (capture_image_loop e t as s) = False \<and>
   logged t (snd (capture_image_loop e t as s)) =
     logged t s @ map (\<lambda>a. ''Retrying image capture... Attempt '' @ str_nat (a + 1)) as
       @ [''Image capture failed after retries.''] \<and>
   tick (snd (capture_image_loop e t as s)) = tick s + length as \<and>
   slept (snd (capture_image_loop e t as s)) = slept s + length as"
proof (induction as arbitrary: s)
  case Nil
  show ?case by (simp add: logged_log tick_log slept_log)
next
  case (Cons a as)
  let ?s1 = "log e t (''Retrying image capture... Attempt '' @ str_nat (a + 1)) (time_sleep 1 s)"
  have first: "\<not> exists_nonempty e (Suc (tick s)) (image_path t)"
    using Cons.prems[of 0] by simp
  have rest: "\<And>k. k < length as \<Longrightarrow> \<not> exists_nonempty e (tick ?s1 + 1 + k) (image_path t)"
    using Cons.prems[of "Suc k" for k] by (simp add: tick_log tick_time_sleep)
  from Cons.IH[of ?s1, OF rest] first show ?case
    by (simp add: Let_def tick_time_sleep tick_log slept_log slept_time_sleep logged_log logged_time_sleep)
qed

lemma upt_0_3: "[0..<3] = [0, 1, 2]"
  by (simp add: upt_rec)

lemma str_nat_digit: "n < 10 \<Longrightarrow> str_nat n = [digit_char n]"
  by (simp add: str_nat.simps)

lemma capture_image_fails:
  assumes "\<not> exists_nonempty e (tick s + 2) (image_path t)"
      and "\<not> exists_nonempty e (tick s + 3) (image_path t)"
      and "\<not> exists_nonempty e (tick s + 4) (image_path t)"
  shows "fst (CameraTests_capture_image e t s) = False \<and>
   logged t (snd (CameraTests_capture_image e t s)) =
     logged t s @ [''Capturing an image on '' @ camera_device t @ ''...'',
       ''Retrying image capture... Attempt 1'', ''Retrying image capture... Attempt 2'',
       ''Retrying image capture... Attempt 3'', ''Image capture failed after retries.''] \<and>
   tick (snd (CameraTests_capture_image e t s)) = tick s + 4 \<and>
   slept (snd (CameraTests_capture_image e t s)) = slept s + 3"
proof -
  let ?s2 = "(log e t (''Capturing an image on '' @ camera_device t @ ''...'') s)\<lparr>tick := Suc (tick s)\<rparr>"
  have polls: "\<And>k. k < length [0, 1, 2::nat] \<Longrightarrow> \<not> exists_nonempty e (tick ?s2 + 1 + k) (image_path t)"
  proof -
    fix k :: nat assume "k < length [0, 1, 2::nat]"
    then have "k = 0 \<or> k = 1 \<or> k = 2" by auto
    with assms show "\<not> exists_nonempty e (tick ?s2 + 1 + k) (image_path t)"
      by (auto simp: numeral_2_eq_2 numeral_3_eq_3 eval_nat_numeral)
  qed
  have unfold: "CameraTests_capture_image e t s = capture_image_loop e t [0, 1, 2] ?s2"
    by (simp add: CameraTests_capture_image_def Let_def split_beta controller_capture_image_state
          tick_log upt_0_3 del: capture_image_loop.simps)
  have names: "map (\<lambda>a. ''Retrying image capture... Attempt '' @ str_nat (a + 1)) [0, 1, 2] =
      [''Retrying image capture... Attempt 1'', ''Retrying image capture... Attempt 2'',
       ''Retrying image capture... Attempt 3'']"
    by (simp add: str_nat_digit digit_char_def)
  from capture_loop_fails[of "[0, 1, 2]" e ?s2 t, OF polls] show ?thesis
    unfolding unfold names
    by (simp add: tick_log logged_log logged_tick_update slept_log del: capture_image_loop.simps)
qed


lemma ffprobe_state: "snd (run_ffprobe e t a b s) = s\<lparr>tick := Suc (tick s)\<rparr>"
  by (simp add: run_ffprobe_def)

lemma test_video_validity_state: "snd (test_video_validity e t s) = s\<lparr>tick := Suc (tick s)\<rparr>"
  by (simp add: test_video_validity_def split_beta ffprobe_state)

lemma test_video_fps_state: "snd (test_video_fps e t s) = s\<lparr>tick := Suc (tick s)\<rparr>"
  by (simp add: test_video_fps_def split_beta ffprobe_state split: sum.splits)

lemma test_video_audio_state: "snd (test_video_audio e t s) = s\<lparr>tick := Suc (tick s)\<rparr>"
  by (simp add: test_video_audio_def split_beta ffprobe_state)

lemma ffprobe_tick_only: "tick s = tick s' \<Longrightarrow> fst (run_ffprobe e t a b s) = fst (run_ffprobe e t a b s')"
  by (simp add: run_ffprobe_def)

lemma test_video_validity_tick_only:
  "tick s = tick s' \<Longrightarrow> fst (test_video_validity e t s) = fst (test_video_validity e t s')"
  by (simp add: test_video_validity_def split_beta ffprobe_tick_only[of s s'])

lemma test_video_fps_tick_only:
  "tick s = tick s' \<Longrightarrow> fst (test_video_fps e t s) = fst (test_video_fps e t s')"
  by (simp add: test_video_fps_def split_beta ffprobe_tick_only[of s s'] split: sum.splits)

lemma test_video_audio_tick_only:
  "tick s = tick s' \<Longrightarrow> fst (test_video_audio e t s) = fst (test_video_audio e t s')"
  by (simp add: test_video_audio_def split_beta ffprobe_tick_only[of s s'])

section \<open>The image and video phases\<close>

lemma run_video_tests_result:
  "\<exists>s'. run_video_tests e t s = Inr s' \<and>
     logged t s' = logged t s @
       [''Running Video Tests...'',
        (if test_video_exists e t s then ''PASS: '' else ''FAIL: '') @ ''Video file exists'',
        (if fst (test_video_validity e t s) then ''PASS: '' else ''FAIL: '') @ ''Video is a valid file'',
        (if fst (test_video_fps e t (s\<lparr>tick := tick s + 1\<rparr>)) then ''PASS: '' else ''FAIL: '')
          @ ''Video FPS is correct'',
        (if fst (test_video_audio e t (s\<lparr>tick := tick s + 2\<rparr>)) then ''PASS: '' else ''FAIL: '')
          @ ''Audio track detected in video''] \<and>
     tick s' = tick s + 3 \<and> slept s' = slept s"
proof -
  define m1 where "m1 = (if test_video_exists e t s then ''PASS: '' else ''FAIL: '') @ ''Video file exists''"
  define m2 where "m2 = (if fst (test_video_validity e t s) then ''PASS: '' else ''FAIL: '') @ ''Video is a valid file''"
  define m3 where "m3 = (if fst (test_video_fps e t (s\<lparr>tick := tick s + 1\<rparr>)) then ''PASS: '' else ''FAIL: '')
          @ ''Video FPS is correct''"
  define m4 where "m4 = (if fst (test_video_audio e t (s\<lparr>tick := tick s + 2\<rparr>)) then ''PASS: '' else ''FAIL: '')
          @ ''Audio track detected in video''"
  define s1 where "s1 = log e t ''Running Video Tests...'' s"
  define s2 where "s2 = log e t m1 s1"
  define s3 where "s3 = snd (test_video_validity e t s2)"
  define s4 where "s4 = log e t m2 s3"
  define s5 where "s5 = snd (test_video_fps e t s4)"
  define s6 where "s6 = log e t m3 s5"
  define s7 where "s7 = snd (test_video_audio e t s6)"
  define s8 where "s8 = log e t m4 s7"
  have t1: "tick s1 = tick s" by (simp add: s1_def tick_log)
  have t2: "tick s2 = tick s" by (simp add: s2_def tick_log t1)
  have t3: "tick s3 = tick s + 1" by (simp add: s3_def test_video_validity_state t2)
  have t4: "tick s4 = tick s + 1" by (simp add: s4_def tick_log t3)
  have t5: "tick s5 = tick s + 2" by (simp add: s5_def test_video_fps_state t4)
  have t6: "tick s6 = tick s + 2" by (simp add: s6_def tick_log t5)
  have t7: "tick s7 = tick s + 3" by (simp add: s7_def test_video_audio_state t6)
  have t8: "tick s8 = tick s + 3" by (simp add: s8_def tick_log t7)
  have v1: "(if test_video_exists e t s1 then ''PASS: '' else ''FAIL: '') @ ''Video file exists'' = m1"
    by (simp only: m1_def test_video_exists_def t1)
  have v2: "(if fst (test_video_validity e t s2) then ''PASS: '' else ''FAIL: '') @ ''Video is a valid file'' = m2"
    using test_video_validity_tick_only[of s2 s e t] t2 by (simp only: m2_def)
  have v3: "(if fst (test_video_fps e t s4) then ''PASS: '' else ''FAIL: '') @ ''Video FPS is correct'' = m3"
    using test_video_fps_tick_only[of s4 "s\<lparr>tick := tick s + 1\<rparr>" e t] t4 by (simp add: m3_def split del: if_split)
  have v4: "(if fst (test_video_audio e t s6) then ''PASS: '' else ''FAIL: '') @ ''Audio track detected in video'' = m4"
    using test_video_audio_tick_only[of s6 "s\<lparr>tick := tick s + 2\<rparr>" e t] t6 by (simp add: m4_def split del: if_split)
  have a1: "assert_test e t (test_video_exists e t s1) ''Video file exists'' s1 = Inr s2"
    by (simp only: assert_test_logs v1 s2_def)
  have a2: "assert_test e t (fst (test_video_validity e t s2)) ''Video is a valid file'' s3 = Inr s4"
    by (simp only: assert_test_logs v2 s4_def)
  have a3: "assert_test e t (fst (test_video_fps e t s4)) ''Video FPS is correct'' s5 = Inr s6"
    by (simp only: assert_test_logs v3 s6_def)
  have a4: "assert_test e t (fst (test_video_audio e t s6)) ''Audio track detected in video'' s7 = Inr s8"
    by (simp only: assert_test_logs v4 s8_def)
  have run: "run_video_tests e t s = Inr s8"
    unfolding run_video_tests_def Let_def s1_def[symmetric]
    by (simp only: a1 bind_result_def sum.case split_beta s3_def[symmetric] a2 s5_def[symmetric] a3
          s7_def[symmetric] a4)
  have l1: "logged t s1 = logged t s @ [''Running Video Tests...'']" by (simp add: s1_def logged_log)
  have l2: "logged t s2 = logged t s @ [''Running Video Tests...'', m1]" by (simp add: s2_def logged_log l1)
  have l3: "logged t s3 = logged t s2" by (simp add: s3_def test_video_validity_state logged_tick_update)
  have l4: "logged t s4 = logged t s @ [''Running Video Tests...'', m1, m2]" by (simp add: s4_def logged_log l3 l2)
  have l5: "logged t s5 = logged t s4" by (simp add: s5_def test_video_fps_state logged_tick_update)
  have l6: "logged t s6 = logged t s @ [''Running Video Tests...'', m1, m2, m3]" by (simp add: s6_def logged_log l5 l4)
  have l7: "logged t s7 = logged t s6" by (simp add: s7_def test_video_audio_state logged_tick_update)
  have l8: "logged t s8 = logged t s @ [''Running Video Tests...'', m1, m2, m3, m4]" by (simp add: s8_def logged_log l7 l6)
  have sl: "slept s8 = slept s"
    by (simp add: s8_def s7_def s6_def s5_def s4_def s3_def s2_def s1_def slept_log
          test_video_validity_state test_video_fps_state test_video_audio_state)
  show ?thesis
    unfolding m1_def[symmetric] m2_def[symmetric] m3_def[symmetric] m4_def[symmetric]
    using run l8 t8 sl by blast
qed

lemma test_image_resolution_fst:
  "fst (test_image_resolution e t w h s) =
     (case cv2_imread e (tick s) (image_path t) IMREAD_COLOR of
        None \<Rightarrow> False | Some img \<Rightarrow> shape1 img = w \<and> shape0 img = h)"
  by (simp add: test_image_resolution_def split: option.splits)


lemma test_image_brightness_fst:
  "fst (test_image_brightness e t s) =
     (case cv2_imread e (tick s) (image_path t) IMREAD_GRAYSCALE of
        None \<Rightarrow> False
      | Some img \<Rightarrow> (case np_mean (elements img) of None \<Rightarrow> False | Some m \<Rightarrow> 50 \<le> m \<and> m \<le> 200))"
  by (simp add: test_image_brightness_def split: option.splits)



section \<open>Sessions run to completion\<close>


lemma run_tests_unfold:
  "run_tests e t s =
     bind_result
       (if \<not> fst (CameraTests_capture_image e t (log e t (''Running Tests on Camera: '' @ camera_device t) s))
        then Inr (log e t ''Skipping image tests due to failed capture.''
                   (snd (CameraTests_capture_image e t (log e t (''Running Tests on Camera: '' @ camera_device t) s))))
        else run_image_tests e t
               (snd (CameraTests_capture_image e t (log e t (''Running Tests on Camera: '' @ camera_device t) s))))
       (\<lambda>s3. bind_result (run_video_tests e t (CameraTests_record_video e t s3))
          (\<lambda>s4. Inr (log e t ''Test session completed.'' s4)))"
  by (simp only: run_tests_def Let_def split_beta)


text \<open>
  C4. When the image file is missing or empty at each of the three polls (one second of sleep before each), run\_tests logs the three retries and the failure, skips the image tests (no PASS or FAIL line of an image check is logged) and goes on to record the video and log the four video verdicts and the completion line.
\<close>

theorem failed_capture_skips_image_tests:
  assumes "\<not> exists_nonempty e (tick s + 2) (image_path t)"
      and "\<not> exists_nonempty e (tick s + 3) (image_path t)"
      and "\<not> exists_nonempty e (tick s + 4) (image_path t)"
  shows "\<exists>s' new v1 v2 v3 v4.
      run_tests e t s = Inr s' \<and>
      logged t s' = logged t s @ new \<and>
      new = [''Running Tests on Camera: '' @ camera_device t,
             ''Capturing an image on '' @ camera_device t @ ''...'',
             ''Retrying image capture... Attempt 1'',
             ''Retrying image capture... Attempt 2'',
             ''Retrying image capture... Attempt 3'',
             ''Image capture failed after retries.'',
             ''Skipping image tests due to failed capture.'',
             ''Starting video recording on '' @ camera_device t @ '': ''
               @ str_int (duration t) @ ''s at '' @ str_int (fps t) @ '' FPS...'',
             ''Recording complete.'',
             ''Running Video Tests...'',
             (if v1 then ''PASS: '' else ''FAIL: '') @ ''Video file exists'',
             (if v2 then ''PASS: '' else ''FAIL: '') @ ''Video is a valid file'',
             (if v3 then ''PASS: '' else ''FAIL: '') @ ''Video FPS is correct'',
             (if v4 then ''PASS: '' else ''FAIL: '') @ ''Audio track detected in video'',
             ''Test session completed.''] \<and>
      (\<forall>m \<in> set [''Image exists'', ''Image is a valid JPEG file'', ''Image resolution is correct'',
                  ''Image brightness is acceptable''].
         ''PASS: '' @ m \<notin> set new \<and> ''FAIL: '' @ m \<notin> set new) \<and>
      slept s' = slept s + 3"
proof -
  define s1 where "s1 = log e t (''Running Tests on Camera: '' @ camera_device t) s"
  define s2 where "s2 = snd (CameraTests_capture_image e t s1)"
  define s3 where "s3 = log e t ''Skipping image tests due to failed capture.'' s2"
  define s4 where "s4 = CameraTests_record_video e t s3"
  define start where "start = ''Starting video recording on '' @ camera_device t @ '': ''
           @ str_int (duration t) @ ''s at '' @ str_int (fps t) @ '' FPS...''"
  have t1: "tick s1 = tick s" by (simp add: s1_def tick_log)
  have polls: "\<not> exists_nonempty e (tick s1 + 2) (image_path t)"
      "\<not> exists_nonempty e (tick s1 + 3) (image_path t)"
      "\<not> exists_nonempty e (tick s1 + 4) (image_path t)"
    using assms by (simp_all add: t1)
  from capture_image_fails[OF polls] have
    c: "fst (CameraTests_capture_image e t s1) = False" and
    l2: "logged t s2 = logged t s1 @ [''Capturing an image on '' @ camera_device t @ ''...'',
       ''Retrying image capture... Attempt 1'', ''Retrying image capture... Attempt 2'',
       ''Retrying image capture... Attempt 3'', ''Image capture failed after retries.'']" and
    p2: "slept s2 = slept s1 + 3"
    unfolding s2_def by blast+
  have l1: "logged t s1 = logged t s @ [''Running Tests on Camera: '' @ camera_device t]"
    by (simp add: s1_def logged_log)
  have p1: "slept s1 = slept s" by (simp add: s1_def slept_log)
  have l3: "logged t s3 = logged t s2 @ [''Skipping image tests due to failed capture.'']"
    by (simp add: s3_def logged_log)
  have p3: "slept s3 = slept s + 3" by (simp add: s3_def slept_log p2 p1)
  have l4: "logged t s4 = logged t s3 @ [start, ''Recording complete.'']"
    by (simp only: s4_def start_def record_video_logged)
  have p4: "slept s4 = slept s + 3" by (simp add: s4_def record_video_slept p3)
  from run_video_tests_result[of e t s4] obtain s5 v1 v2 v3 v4 where
    r5: "run_video_tests e t s4 = Inr s5" and
    l5: "logged t s5 = logged t s4 @
       [''Running Video Tests...'',
        (if v1 then ''PASS: '' else ''FAIL: '') @ ''Video file exists'',
        (if v2 then ''PASS: '' else ''FAIL: '') @ ''Video is a valid file'',
        (if v3 then ''PASS: '' else ''FAIL: '') @ ''Video FPS is correct'',
        (if v4 then ''PASS: '' else ''FAIL: '') @ ''Audio track detected in video'']" and
    p5: "slept s5 = slept s4"
    by blast
  define s6 where "s6 = log e t ''Test session completed.'' s5"
  define new where "new = [''Running Tests on Camera: '' @ camera_device t,
             ''Capturing an image on '' @ camera_device t @ ''...'',
             ''Retrying image capture... Attempt 1'',
             ''Retrying image capture... Attempt 2'',
             ''Retrying image capture... Attempt 3'',
             ''Image capture failed after retries.'',
             ''Skipping image tests due to failed capture.'',
             start,
             ''Recording complete.'',
             ''Running Video Tests...'',
             (if v1 then ''PASS: '' else ''FAIL: '') @ ''Video file exists'',
             (if v2 then ''PASS: '' else ''FAIL: '') @ ''Video is a valid file'',
             (if v3 then ''PASS: '' else ''FAIL: '') @ ''Video FPS is correct'',
             (if v4 then ''PASS: '' else ''FAIL: '') @ ''Audio track detected in video'',
             ''Test session completed.'']"
  have run: "run_tests e t s = Inr s6"
    unfolding run_tests_unfold s1_def[symmetric]
    by (simp only: c not_False_eq_True if_True s2_def[symmetric] s3_def[symmetric] bind_result_def
          sum.case s4_def[symmetric] r5 s6_def)
  have l6: "logged t s6 = logged t s @ new"
    by (simp only: new_def s6_def logged_log l5 l4 l3 l2 l1 append_assoc append_Cons append_Nil)
  have p6: "slept s6 = slept s + 3" by (simp add: s6_def slept_log p5 p4)
  have none: "\<forall>m \<in> set [''Image exists'', ''Image is a valid JPEG file'', ''Image resolution is correct'',
                  ''Image brightness is acceptable''].
         ''PASS: '' @ m \<notin> set new \<and> ''FAIL: '' @ m \<notin> set new"
    by (simp add: new_def start_def)
  show ?thesis
    unfolding start_def[symmetric]
    using run l6 p6 none new_def by blast
qed

section \<open>The constructor, the image checks and the controller\<close>

lemma split_char_append:
  "sep \<notin> set xs \<Longrightarrow> split_char sep (xs @ sep # ys) = xs # split_char sep ys"
  by (induction xs) auto

text \<open>
  C2. Right after the constructor the session's log file exists and holds the header line once, followed by the rule of fifty equals signs that the constructor writes with it, and no log entry yet; when neither the timestamp nor the device name contains a line break, these are the two lines of the file.
\<close>

theorem constructor_writes_header:
  assumes "CameraTests_init e dev f dur outd logd s = (t, s')"
  shows "logs s' (log_path t) =
           Some [Text (''Audit Log - Test Session '' @ timestamp t @ '' - Camera: '' @ dev @ ''\<newline>''),
                 Text (replicate 50 CHR ''='' @ ''\<newline>'')] \<and>
         length (filter (\<lambda>c. take 24 (bytes_of c) = ''Audit Log - Test Session'') (log_file t s')) = 1 \<and>
         file_bytes (log_file t s') =
           ''Audit Log - Test Session '' @ timestamp t @ '' - Camera: '' @ dev @ ''\<newline>''
           @ replicate 50 CHR ''='' @ ''\<newline>'' \<and>
         (CHR ''\<newline>'' \<notin> set (timestamp t) \<and> CHR ''\<newline>'' \<notin> set dev \<longrightarrow>
            split_char CHR ''\<newline>'' (file_bytes (log_file t s')) =
              [''Audit Log - Test Session '' @ timestamp t @ '' - Camera: '' @ dev,
               replicate 50 CHR ''='', []]) \<and>
         logged t s' = []"
proof -
  from assms have t: "t = fst (CameraTests_init e dev f dur outd logd s)"
    and s': "s' = snd (CameraTests_init e dev f dur outd logd s)" by simp_all
  have l: "logs s' (log_path t) =
           Some [Text (''Audit Log - Test Session '' @ timestamp t @ '' - Camera: '' @ dev @ ''\<newline>''),
                 Text (replicate 50 CHR ''='' @ ''\<newline>'')]"
    unfolding t s' by (simp add: CameraTests_init_def Let_def)
  have r: "take 24 (replicate 50 CHR ''='' @ ''\<newline>'') \<noteq> ''Audit Log - Test Session''"
    by (simp add: numeral_eq_Suc)
  have b: "file_bytes (log_file t s') =
      (''Audit Log - Test Session '' @ timestamp t @ '' - Camera: '' @ dev) @ CHR ''\<newline>'' #
      (replicate 50 CHR ''='' @ CHR ''\<newline>'' # [])"
    using l by (simp add: log_file_def file_bytes_def)
  have lines: "split_char CHR ''\<newline>'' (file_bytes (log_file t s')) =
              [''Audit Log - Test Session '' @ timestamp t @ '' - Camera: '' @ dev,
               replicate 50 CHR ''='', []]"
    if "CHR ''\<newline>'' \<notin> set (timestamp t) \<and> CHR ''\<newline>'' \<notin> set dev"
  proof -
    from that have h: "CHR ''\<newline>'' \<notin> set (''Audit Log - Test Session '' @ timestamp t @ '' - Camera: '' @ dev)"
      by simp
    have u: "CHR ''\<newline>'' \<notin> set (replicate 50 CHR ''='')" by simp
    show ?thesis
      unfolding b by (simp only: split_char_append[OF h] split_char_append[OF u] split_char.simps)
  qed
  from l r lines show ?thesis
    by (simp add: log_file_def logged_def file_bytes_def)
qed

text \<open>
  C6. The resolution check passes exactly when the image decodes and is 1280 columns by 720 rows.
\<close>

theorem resolution_check_exact:
  "fst (test_image_resolution e t 1280 720 s) =
     (\<exists>img. cv2_imread e (tick s) (image_path t) IMREAD_COLOR = Some img \<and>
            shape1 img = 1280 \<and> shape0 img = 720)"
  by (simp add: test_image_resolution_fst split: option.splits)

lemma np_mean_nonempty:
  "xs \<noteq> [] \<Longrightarrow> np_mean xs = Some (of_nat (sum_list (map unat xs)) / of_nat (length xs))"
  by (simp add: np_mean_def)

lemma sum_list_const: "set xs = {v} \<Longrightarrow> sum_list (map g xs) = length xs * g v"
proof -
  assume a: "set xs = {v}"
  then have "map g xs = map (\<lambda>x. g v) xs" by simp
  then have "map g xs = replicate (length xs) (g v)" by (simp only: map_replicate_const)
  then show ?thesis by (simp add: sum_list_replicate)
qed

text \<open>
  C5. For an image that decodes in grayscale, the brightness check passes exactly when the mean of its elements lies between 50 and 200, both included; for an image of one uniform value v that is 50 <= v <= 200.
\<close>

theorem brightness_band_inclusive:
  assumes "cv2_imread e (tick s) (image_path t) IMREAD_GRAYSCALE = Some img"
      and "elements img \<noteq> []"
  shows "fst (test_image_brightness e t s) =
           (50 \<le> (of_nat (sum_list (map unat (elements img))) / of_nat (length (elements img)) :: rat) \<and>
            (of_nat (sum_list (map unat (elements img))) / of_nat (length (elements img)) :: rat) \<le> 200) \<and>
         (\<forall>v. set (elements img) = {v} \<longrightarrow>
              fst (test_image_brightness e t s) = (50 \<le> unat v \<and> unat v \<le> 200))"
proof
  show m: "fst (test_image_brightness e t s) =
           (50 \<le> (of_nat (sum_list (map unat (elements img))) / of_nat (length (elements img)) :: rat) \<and>
            (of_nat (sum_list (map unat (elements img))) / of_nat (length (elements img)) :: rat) \<le> 200)"
    using assms by (simp add: test_image_brightness_fst np_mean_nonempty)
  show "\<forall>v. set (elements img) = {v} \<longrightarrow>
              fst (test_image_brightness e t s) = (50 \<le> unat v \<and> unat v \<le> 200)"
  proof (intro allI impI)
    fix v assume v: "set (elements img) = {v}"
    have n: "length (elements img) > 0" using assms(2) by simp
    have "(of_nat (sum_list (map unat (elements img))) / of_nat (length (elements img)) :: rat) = of_nat (unat v)"
      using n by (simp add: sum_list_const[OF v])
    then show "fst (test_image_brightness e t s) = (50 \<le> unat v \<and> unat v \<le> 200)"
      unfolding m by (simp only: of_nat_numeral[symmetric, where 'a=rat] of_nat_le_iff)
  qed
qed

text \<open>
  C7. After the transcoder has exited, record\_video of the controller returns the output path when the output file exists with a non-zero size, and otherwise returns the diagnostic string that embeds the captured stdout and stderr; for a path without a line break the returned value is the path exactly when the file exists with a non-zero size.
\<close>

theorem controller_record_video_result:
  "fst (CameraController_record_video e c dur filename s) =
     (if exists_nonempty e (Suc (tick s)) (os_path_join (output_dir c) filename)
      then os_path_join (output_dir c) filename
      else ''Failed to record video. FFmpeg output:\<newline>STDOUT: ''
           @ fst (popen_shell e (tick s)
                   (py_join '' '' (record_video_command c dur (os_path_join (output_dir c) filename))))
           @ ''\<newline>STDERR: ''
           @ snd (popen_shell e (tick s)
                   (py_join '' '' (record_video_command c dur (os_path_join (output_dir c) filename))))) \<and>
   (CHR ''\<newline>'' \<notin> set (os_path_join (output_dir c) filename) \<longrightarrow>
      (fst (CameraController_record_video e c dur filename s) = os_path_join (output_dir c) filename
       \<longleftrightarrow> exists_nonempty e (Suc (tick s)) (os_path_join (output_dir c) filename)))"
proof -
  have r: "fst (CameraController_record_video e c dur filename s) =
     (if exists_nonempty e (Suc (tick s)) (os_path_join (output_dir c) filename)
      then os_path_join (output_dir c) filename
      else ''Failed to record video. FFmpeg output:\<newline>STDOUT: ''
           @ fst (popen_shell e (tick s)
                   (py_join '' '' (record_video_command c dur (os_path_join (output_dir c) filename))))
           @ ''\<newline>STDERR: ''
           @ snd (popen_shell e (tick s)
                   (py_join '' '' (record_video_command c dur (os_path_join (output_dir c) filename)))))"
    by (simp add: CameraController_record_video_def Let_def split_beta)
  define path where "path = os_path_join (output_dir c) filename"
  define diag where "diag = ''Failed to record video. FFmpeg output:\<newline>STDOUT: ''
           @ fst (popen_shell e (tick s) (py_join '' '' (record_video_command c dur path)))
           @ ''\<newline>STDERR: ''
           @ snd (popen_shell e (tick s) (py_join '' '' (record_video_command c dur path)))"
  have d: "CHR ''\<newline>'' \<in> set diag" by (simp add: diag_def)
  have ne: "CHR ''\<newline>'' \<notin> set path \<Longrightarrow> diag \<noteq> path" using d by blast
  have r': "fst (CameraController_record_video e c dur filename s) =
      (if exists_nonempty e (Suc (tick s)) path then path else diag)"
    using r by (simp only: path_def diag_def)
  have "CHR ''\<newline>'' \<notin> set path \<longrightarrow>
      (fst (CameraController_record_video e c dur filename s) = path
       \<longleftrightarrow> exists_nonempty e (Suc (tick s)) path)"
    unfolding r' using ne by (cases "exists_nonempty e (Suc (tick s)) path") simp_all
  with r show ?thesis unfolding path_def by blast
qed

section \<open>The frame-rate check\<close>















section \<open>The recording wrapper, repeated checks and the script\<close>

lemma record_video_printed:
  "printed (CameraTests_record_video e t s) =
     printed s @ [''Starting video recording on '' @ camera_device t @ '': ''
                     @ str_int (duration t) @ ''s at '' @ str_int (fps t) @ '' FPS...'',
                   ''Recording complete.'']"
  by (simp add: CameraTests_record_video_def Let_def split_beta controller_record_video_state printed_log)

text \<open>
  C10. The record\_video wrapper of the test runner ignores what the controller returns: whatever the returned value, it logs (and prints) the start line and then the line Recording complete., also when the controller returned its failure diagnostic; a missing video file shows up afterwards as the FAIL line of the first video check.
\<close>

theorem record_video_wrapper_discards_result:
  "(\<forall>returned s2.
      CameraController_record_video e (camera t) (duration t) (''video_'' @ timestamp t @ ''.mp4'')
        (log e t (''Starting video recording on '' @ camera_device t @ '': ''
                    @ str_int (duration t) @ ''s at '' @ str_int (fps t) @ '' FPS...'') s) = (returned, s2)
      \<longrightarrow> CameraTests_record_video e t s = log e t ''Recording complete.'' s2) \<and>
   logged t (CameraTests_record_video e t s) =
     logged t s @ [''Starting video recording on '' @ camera_device t @ '': ''
                     @ str_int (duration t) @ ''s at '' @ str_int (fps t) @ '' FPS...'',
                   ''Recording complete.''] \<and>
   printed (CameraTests_record_video e t s) =
     printed s @ [''Starting video recording on '' @ camera_device t @ '': ''
                     @ str_int (duration t) @ ''s at '' @ str_int (fps t) @ '' FPS...'',
                   ''Recording complete.''] \<and>
   (\<not> exists_nonempty e (Suc (tick s))
         (os_path_join (output_dir (camera t)) (''video_'' @ timestamp t @ ''.mp4'')) \<longrightarrow>
      take 23 (fst (CameraController_record_video e (camera t) (duration t)
                      (''video_'' @ timestamp t @ ''.mp4'')
                      (log e t (''Starting video recording on '' @ camera_device t @ '': ''
                         @ str_int (duration t) @ ''s at '' @ str_int (fps t) @ '' FPS...'') s)))
        = ''Failed to record video.'' \<and>
      last (logged t (CameraTests_record_video e t s)) = ''Recording complete.'') \<and>
   (file_at e (Suc (tick s)) (video_path t) = None \<longrightarrow>
      (\<exists>s'. run_video_tests e t (CameraTests_record_video e t s) = Inr s' \<and>
            ''FAIL: Video file exists'' \<in> set (logged t s')))"
proof (intro conjI)
  show "\<forall>returned s2.
      CameraController_record_video e (camera t) (duration t) (''video_'' @ timestamp t @ ''.mp4'')
        (log e t (''Starting video recording on '' @ camera_device t @ '': ''
                    @ str_int (duration t) @ ''s at '' @ str_int (fps t) @ '' FPS...'') s) = (returned, s2)
      \<longrightarrow> CameraTests_record_video e t s = log e t ''Recording complete.'' s2"
    by (simp add: CameraTests_record_video_def Let_def)
  show "logged t (CameraTests_record_video e t s) =
     logged t s @ [''Starting video recording on '' @ camera_device t @ '': ''
                     @ str_int (duration t) @ ''s at '' @ str_int (fps t) @ '' FPS...'',
                   ''Recording complete.'']"
    by (rule record_video_logged)
  show "printed (CameraTests_record_video e t s) =
     printed s @ [''Starting video recording on '' @ camera_device t @ '': ''
                     @ str_int (duration t) @ ''s at '' @ str_int (fps t) @ '' FPS...'',
                   ''Recording complete.'']"
    by (rule record_video_printed)
  show "\<not> exists_nonempty e (Suc (tick s))
         (os_path_join (output_dir (camera t)) (''video_'' @ timestamp t @ ''.mp4'')) \<longrightarrow>
      take 23 (fst (CameraController_record_video e (camera t) (duration t)
                      (''video_'' @ timestamp t @ ''.mp4'')
                      (log e t (''Starting video recording on '' @ camera_device t @ '': ''
                         @ str_int (duration t) @ ''s at '' @ str_int (fps t) @ '' FPS...'') s)))
        = ''Failed to record video.'' \<and>
      last (logged t (CameraTests_record_video e t s)) = ''Recording complete.''"
    by (simp add: CameraController_record_video_def Let_def split_beta tick_log record_video_logged
          numeral_eq_Suc)
  show "file_at e (Suc (tick s)) (video_path t) = None \<longrightarrow>
      (\<exists>s'. run_video_tests e t (CameraTests_record_video e t s) = Inr s' \<and>
            ''FAIL: Video file exists'' \<in> set (logged t s'))"
  proof
    assume missing: "file_at e (Suc (tick s)) (video_path t) = None"
    have v: "\<not> test_video_exists e t (CameraTests_record_video e t s)"
      using missing by (simp add: test_video_exists_def os_path_exists_def record_video_tick)
    from run_video_tests_result[of e t "CameraTests_record_video e t s"] obtain s' rest where
      "run_video_tests e t (CameraTests_record_video e t s) = Inr s'"
      "logged t s' = logged t (CameraTests_record_video e t s) @
         ''Running Video Tests...'' #
         ((if test_video_exists e t (CameraTests_record_video e t s) then ''PASS: '' else ''FAIL: '')
            @ ''Video file exists'') # rest"
      by fastforce
    with v show "\<exists>s'. run_video_tests e t (CameraTests_record_video e t s) = Inr s' \<and>
            ''FAIL: Video file exists'' \<in> set (logged t s')"
      by simp
  qed
qed

text \<open>
  C9. With the same decoder, prober and JSON reader, two runs of a check that see the same bytes in the artifact file (the image file for the four image checks, the video file for the four video checks) give the same verdict, whatever else differs between the two runs (time, log, printed lines, other files).
\<close>

theorem check_verdicts_depend_on_artifact_only:
  assumes "imdecode e = imdecode e'" and "ffprobe e = ffprobe e'" and "json_loads e = json_loads e'"
      and "file_at e (tick s) (image_path t) = file_at e' (tick s') (image_path t)"
      and "file_at e (tick s) (video_path t) = file_at e' (tick s') (video_path t)"
  shows "test_image_exists e t s = test_image_exists e' t s' \<and>
         test_image_validity e t s = test_image_validity e' t s' \<and>
         fst (test_image_resolution e t 1280 720 s) = fst (test_image_resolution e' t 1280 720 s') \<and>
         fst (test_image_brightness e t s) = fst (test_image_brightness e' t s') \<and>
         test_video_exists e t s = test_video_exists e' t s' \<and>
         fst (test_video_validity e t s) = fst (test_video_validity e' t s') \<and>
         fst (test_video_fps e t s) = fst (test_video_fps e' t s') \<and>
         fst (test_video_audio e t s) = fst (test_video_audio e' t s')"
proof -
  have rd: "cv2_imread e (tick s) (image_path t) flag = cv2_imread e' (tick s') (image_path t) flag" for flag
    by (simp only: cv2_imread_def assms(1) assms(4))
  have pr: "fst (run_ffprobe e t a b s) = fst (run_ffprobe e' t a b s')" for a b
    by (simp only: run_ffprobe_def assms(2) assms(5) fst_conv)
  have rate: "probed_rate e out = probed_rate e' out" for out
    by (simp only: probed_rate_def assms(3))
  have i1: "test_image_exists e t s = test_image_exists e' t s'"
    by (simp only: test_image_exists_def exists_nonempty_def assms(4))
  have i2: "test_image_validity e t s = test_image_validity e' t s'"
    by (simp add: test_image_validity_def rd)
  have i3: "fst (test_image_resolution e t 1280 720 s) = fst (test_image_resolution e' t 1280 720 s')"
    by (simp add: test_image_resolution_fst rd)
  have i4: "fst (test_image_brightness e t s) = fst (test_image_brightness e' t s')"
    by (simp add: test_image_brightness_fst rd)
  have v1: "test_video_exists e t s = test_video_exists e' t s'"
    by (simp only: test_video_exists_def os_path_exists_def assms(5))
  have v2: "fst (test_video_validity e t s) = fst (test_video_validity e' t s')"
    by (simp add: test_video_validity_def split_beta pr)
  have v3: "fst (test_video_fps e t s) = fst (test_video_fps e' t s')"
    by (simp add: test_video_fps_def test_video_fps_try_def split_beta pr rate split: sum.splits)
  have v4: "fst (test_video_audio e t s) = fst (test_video_audio e' t s')"
    by (simp add: test_video_audio_def split_beta pr)
  from i1 i2 i3 i4 v1 v2 v3 v4 show ?thesis by blast
qed

lemma py_int_raises_only_ValueError: "py_int x = Inl err \<Longrightarrow> err = ValueError"
  by (simp add: py_int_def Let_def split: if_splits)

text \<open>
  C8. With no camera detected the script prints No cameras detected. and exits with status 1; at the prompt, an input that is not a number prints Invalid input. and exits with status 1, and a number outside 1..len(cameras) prints Invalid selection. and exits with status 1. In each case no CameraTests object is constructed and no log file is written.
\<close>

theorem invalid_startup_exits_nonzero:
  "(fst (list_cameras e s) = [] \<longrightarrow>
      main e s = (Exit 1, [], py_print ''No cameras detected.'' (snd (list_cameras e s)))) \<and>
   (fst (list_cameras e s) \<noteq> [] \<and> \<not> truthy (getenv e ''CAMERA_DEVICE'') \<and>
    \<not> truthy (getenv e ''RUNNING_IN_DOCKER'') \<and> lower (strip (user_input e)) \<noteq> ''all'' \<longrightarrow>
      ((\<exists>err. py_int (strip (user_input e)) = Inl err) \<longrightarrow>
         main e s = (Exit 1, [],
           py_print ''Invalid input.''
             (print_cameras (fst (list_cameras e s))
                (py_print ''Available Cameras:'' (snd (list_cameras e s)))))) \<and>
      (\<forall>n. py_int (strip (user_input e)) = Inr n \<and>
            (n - 1 < 0 \<or> n - 1 \<ge> int (length (fst (list_cameras e s)))) \<longrightarrow>
         main e s = (Exit 1, [],
           py_print ''Invalid selection.''
             (print_cameras (fst (list_cameras e s))
                (py_print ''Available Cameras:'' (snd (list_cameras e s))))))) \<and>
   logs (py_print m (print_cameras cams (py_print m' (snd (list_cameras e s))))) = logs s \<and>
   logs (py_print m (snd (list_cameras e s))) = logs s"
proof (intro conjI)
  show "fst (list_cameras e s) = [] \<longrightarrow>
      main e s = (Exit 1, [], py_print ''No cameras detected.'' (snd (list_cameras e s)))"
    by (simp add: main_def split_beta Let_def)
  show "fst (list_cameras e s) \<noteq> [] \<and> \<not> truthy (getenv e ''CAMERA_DEVICE'') \<and>
    \<not> truthy (getenv e ''RUNNING_IN_DOCKER'') \<and> lower (strip (user_input e)) \<noteq> ''all'' \<longrightarrow>
      ((\<exists>err. py_int (strip (user_input e)) = Inl err) \<longrightarrow>
         main e s = (Exit 1, [],
           py_print ''Invalid input.''
             (print_cameras (fst (list_cameras e s))
                (py_print ''Available Cameras:'' (snd (list_cameras e s)))))) \<and>
      (\<forall>n. py_int (strip (user_input e)) = Inr n \<and>
            (n - 1 < 0 \<or> n - 1 \<ge> int (length (fst (list_cameras e s)))) \<longrightarrow>
         main e s = (Exit 1, [],
           py_print ''Invalid selection.''
             (print_cameras (fst (list_cameras e s))
                (py_print ''Available Cameras:'' (snd (list_cameras e s))))))"
  proof (intro impI conjI allI)
    assume a: "fst (list_cameras e s) \<noteq> [] \<and> \<not> truthy (getenv e ''CAMERA_DEVICE'') \<and>
      \<not> truthy (getenv e ''RUNNING_IN_DOCKER'') \<and> lower (strip (user_input e)) \<noteq> ''all''"
    then have m: "main e s = interactive e (fst (list_cameras e s))
        (print_cameras (fst (list_cameras e s)) (py_print ''Available Cameras:'' (snd (list_cameras e s))))"
      by (simp add: main_def split_beta Let_def)
    { assume "\<exists>err. py_int (strip (user_input e)) = Inl err"
      then obtain err where "py_int (strip (user_input e)) = Inl err" by blast
      with py_int_raises_only_ValueError[of "strip (user_input e)" err]
      have "py_int (strip (user_input e)) = Inl ValueError" by simp
      with a show "main e s = (Exit 1, [],
           py_print ''Invalid input.''
             (print_cameras (fst (list_cameras e s))
                (py_print ''Available Cameras:'' (snd (list_cameras e s)))))"
        unfolding m by (simp add: interactive_def Let_def) }
    { fix n
      assume "py_int (strip (user_input e)) = Inr n \<and>
            (n - 1 < 0 \<or> n - 1 \<ge> int (length (fst (list_cameras e s))))"
      with a show "main e s = (Exit 1, [],
           py_print ''Invalid selection.''
             (print_cameras (fst (list_cameras e s))
                (py_print ''Available Cameras:'' (snd (list_cameras e s)))))"
        unfolding m by (auto simp add: interactive_def Let_def) }
  qed
  have pc: "logs (print_cameras cams x) = logs x" for x
  proof -
    have "logs (fold (\<lambda>(i, cam). py_print (str_nat (i + 1) @ ''. '' @ cam)) xs x) = logs x" for xs
      by (induction xs arbitrary: x) (auto simp: py_print_def)
    then show ?thesis by (simp add: print_cameras_def)
  qed
  show "logs (py_print m (print_cameras cams (py_print m' (snd (list_cameras e s))))) = logs s"
    by (simp add: py_print_def pc list_cameras_def Let_def)
  show "logs (py_print m (snd (list_cameras e s))) = logs s"
    by (simp add: py_print_def list_cameras_def Let_def)
qed

section \<open>The theorems at concrete inputs\<close>

lemma demo_paths:
  "image_path demo_tests = ''captures/image_20250101_120000.jpg''"
  "video_path demo_tests = ''captures/video_20250101_120000.mp4''"
  "log_path demo_tests = ''logs/20250101_120000_log.txt''"
  "timestamp demo_tests = ''20250101_120000''"
  by (simp_all add: demo_tests_def CameraTests_init_def demo_env_def os_path_join_def Let_def)

theorem constructor_writes_header_witness:
  "logs (snd (CameraTests_init demo_env ''/dev/video0'' 30 5 ''captures'' ''logs'' demo_state))
        ''logs/20250101_120000_log.txt'' =
     Some [Text ''Audit Log - Test Session 20250101_120000 - Camera: /dev/video0\<newline>'',
           Text ''==================================================\<newline>'']"
proof -
  have h: "CameraTests_init demo_env ''/dev/video0'' 30 5 ''captures'' ''logs'' demo_state =
      (demo_tests, snd (CameraTests_init demo_env ''/dev/video0'' 30 5 ''captures'' ''logs'' demo_state))"
    by (simp add: demo_tests_def)
  have r: "replicate 50 CHR ''='' = ''==================================================''"
    by (simp add: numeral_eq_Suc)
  from constructor_writes_header[OF h] show ?thesis
    by (simp only: demo_paths r append.simps)
qed

theorem failed_capture_skips_image_tests_witness:
  "\<not> exists_nonempty demo_env (tick demo_state + 2) (image_path demo_tests) \<and>
   \<not> exists_nonempty demo_env (tick demo_state + 3) (image_path demo_tests) \<and>
   \<not> exists_nonempty demo_env (tick demo_state + 4) (image_path demo_tests) \<and>
   (\<exists>s'. run_tests demo_env demo_tests demo_state = Inr s' \<and> slept s' = 3 \<and>
         ''PASS: Image exists'' \<notin> set (logged demo_tests s') \<and>
         ''FAIL: Image exists'' \<notin> set (logged demo_tests s') \<and>
         last (logged demo_tests s') = ''Test session completed.'')"
proof -
  have h: "\<not> exists_nonempty demo_env (tick demo_state + 2) (image_path demo_tests)"
          "\<not> exists_nonempty demo_env (tick demo_state + 3) (image_path demo_tests)"
          "\<not> exists_nonempty demo_env (tick demo_state + 4) (image_path demo_tests)"
    by (simp_all add: exists_nonempty_def demo_paths demo_env_def)
  have l0: "logged demo_tests demo_state = []"
    by (simp add: logged_def log_file_def demo_state_def)
  have s0: "slept demo_state = 0" by (simp add: demo_state_def)
  from failed_capture_skips_image_tests[OF h] obtain s' new where
    r: "run_tests demo_env demo_tests demo_state = Inr s'" and
    l: "logged demo_tests s' = logged demo_tests demo_state @ new" and
    n: "\<forall>m \<in> set [''Image exists'', ''Image is a valid JPEG file'', ''Image resolution is correct'',
                  ''Image brightness is acceptable''].
         ''PASS: '' @ m \<notin> set new \<and> ''FAIL: '' @ m \<notin> set new" and
    la: "last new = ''Test session completed.''" and
    p: "slept s' = slept demo_state + 3"
    by fastforce
  from n have "''PASS: Image exists'' \<notin> set new \<and> ''FAIL: Image exists'' \<notin> set new" by simp
  with r l la p h show ?thesis by (simp add: l0 s0)
qed

theorem resolution_check_exact_witness:
  "fst (test_image_resolution (pixel_env 128) demo_tests 1280 720 demo_state) = False"
  using resolution_check_exact[of "pixel_env 128" demo_tests demo_state]
  by (simp add: cv2_imread_def pixel_env_def demo_env_def)

theorem brightness_band_inclusive_witness:
  "fst (test_image_brightness (pixel_env 50) demo_tests demo_state) = True \<and>
   fst (test_image_brightness (pixel_env 200) demo_tests demo_state) = True \<and>
   fst (test_image_brightness (pixel_env 49) demo_tests demo_state) = False \<and>
   fst (test_image_brightness (pixel_env 201) demo_tests demo_state) = False"
proof -
  have d: "cv2_imread (pixel_env v) (tick demo_state) (image_path demo_tests) IMREAD_GRAYSCALE =
      Some \<lparr>shape0 = 480, shape1 = 640, elements = [v, v]\<rparr>" for v
    by (simp add: cv2_imread_def pixel_env_def demo_env_def)
  have n: "elements \<lparr>shape0 = 480, shape1 = 640, elements = [v, v]\<rparr> \<noteq> []" for v :: "8 word"
    by simp
  have u: "set (elements \<lparr>shape0 = 480, shape1 = 640, elements = [v, v]\<rparr>) = {v}" for v :: "8 word"
    by simp
  from brightness_band_inclusive[OF d n] u
  have "fst (test_image_brightness (pixel_env v) demo_tests demo_state) = (50 \<le> unat v \<and> unat v \<le> 200)"
    for v by blast
  from this[of 50] this[of 200] this[of 49] this[of 201] show ?thesis by simp
qed

theorem controller_record_video_result_witness:
  "fst (CameraController_record_video demo_env (CameraController_init ''/dev/video0'' ''captures'') 5
          ''video_20250101_120000.mp4'' demo_state) = ''captures/video_20250101_120000.mp4'' \<and>
   fst (CameraController_record_video demo_env (CameraController_init ''/dev/video0'' ''captures'') 5
          ''video.mp4'' demo_state) =
     ''Failed to record video. FFmpeg output:\<newline>STDOUT: \<newline>STDERR: frame=  150''"
  using controller_record_video_result[of demo_env "CameraController_init ''/dev/video0'' ''captures''" 5
          "''video_20250101_120000.mp4''" demo_state]
        controller_record_video_result[of demo_env "CameraController_init ''/dev/video0'' ''captures''" 5
          "''video.mp4''" demo_state]
  by (simp add: CameraController_init_def os_path_join_def exists_nonempty_def demo_env_def)

lemma demo_fields:
  "camera_device demo_tests = ''/dev/video0''" "fps demo_tests = 30" "duration demo_tests = 5"
  by (simp_all add: demo_tests_def CameraTests_init_def Let_def)

lemma str_int_5_30: "str_int 5 = ''5''" "str_int 30 = ''30''"
  by (simp_all add: str_int_def str_nat.simps[of 5] str_nat.simps[of 30] str_nat.simps[of 3] digit_char_def)

theorem record_video_wrapper_discards_result_witness:
  "logged demo_tests (CameraTests_record_video offline_env demo_tests demo_state) =
     [''Starting video recording on /dev/video0: 5s at 30 FPS...'', ''Recording complete.''] \<and>
   (\<exists>s'. run_video_tests offline_env demo_tests
           (CameraTests_record_video offline_env demo_tests demo_state) = Inr s' \<and>
         ''FAIL: Video file exists'' \<in> set (logged demo_tests s'))"
proof -
  have m: "file_at offline_env (Suc (tick demo_state)) (video_path demo_tests) = None"
    by (simp add: offline_env_def)
  have l0: "logged demo_tests demo_state = []"
    by (simp add: logged_def log_file_def demo_state_def)
  from record_video_wrapper_discards_result[of offline_env demo_tests demo_state] m l0
  show ?thesis by (simp add: demo_fields str_int_5_30)
qed

theorem check_verdicts_depend_on_artifact_only_witness:
  "test_image_exists demo_env demo_tests demo_state
     = test_image_exists demo_env demo_tests (demo_state\<lparr>tick := 7\<rparr>) \<and>
   fst (test_image_brightness demo_env demo_tests demo_state)
     = fst (test_image_brightness demo_env demo_tests (demo_state\<lparr>tick := 7\<rparr>)) \<and>
   test_video_exists demo_env demo_tests demo_state
     = test_video_exists demo_env demo_tests (demo_state\<lparr>tick := 7\<rparr>) \<and>
   fst (test_video_fps demo_env demo_tests demo_state)
     = fst (test_video_fps demo_env demo_tests (demo_state\<lparr>tick := 7\<rparr>))"
proof -
  have i: "file_at demo_env (tick demo_state) (image_path demo_tests)
      = file_at demo_env (tick (demo_state\<lparr>tick := 7\<rparr>)) (image_path demo_tests)"
    by (simp add: demo_env_def)
  have v: "file_at demo_env (tick demo_state) (video_path demo_tests)
      = file_at demo_env (tick (demo_state\<lparr>tick := 7\<rparr>)) (video_path demo_tests)"
    by (simp add: demo_env_def)
  from check_verdicts_depend_on_artifact_only[OF refl refl refl i v] show ?thesis by blast
qed

lemma listing_cameras:
  "fst (list_cameras (listing_env typed) demo_state) = [''/dev/video0'', ''/dev/video1'']"
  by (simp add: list_cameras_def listing_env_def demo_env_def strip_def is_space_def)

lemma listing_getenv: "\<not> truthy (getenv (listing_env typed) name)"
  by (simp add: listing_env_def demo_env_def truthy_def)

lemma typed_7: "py_int (strip ''7'') = Inr 7" "lower (strip ''7'') \<noteq> ''all''"
  by (simp_all add: py_int_def strip_def is_space_def is_digit_def nat_of_digits_def digit_val_def
        lower_def lower_char_def)

lemma typed_abc: "py_int (strip ''abc'') = Inl ValueError" "lower (strip ''abc'') \<noteq> ''all''"
  by (simp_all add: py_int_def strip_def is_space_def is_digit_def lower_def lower_char_def)

lemma str_nat_1_2: "str_nat (Suc 0) = ''1''" "str_nat (Suc (Suc 0)) = ''2''"
  by (simp_all add: str_nat.simps[of "Suc 0"] str_nat.simps[of "Suc (Suc 0)"] digit_char_def)

lemma listing_printed:
  "printed (py_print m (print_cameras [''/dev/video0'', ''/dev/video1'']
      (py_print ''Available Cameras:'' (snd (list_cameras (listing_env typed) demo_state))))) =
   [''Available Cameras:'', ''1. /dev/video0'', ''2. /dev/video1'', m]"
  by (simp add: py_print_def print_cameras_def enumerate_simps list_cameras_def demo_state_def
        str_nat_1_2)

theorem invalid_startup_exits_nonzero_witness:
  "main demo_env demo_state =
     (Exit 1, [], demo_state\<lparr>printed := [''No cameras detected.''], tick := 1\<rparr>) \<and>
   fst (main (listing_env ''7'') demo_state) = Exit 1 \<and>
   fst (snd (main (listing_env ''7'') demo_state)) = [] \<and>
   printed (snd (snd (main (listing_env ''7'') demo_state))) =
     [''Available Cameras:'', ''1. /dev/video0'', ''2. /dev/video1'', ''Invalid selection.''] \<and>
   fst (main (listing_env ''abc'') demo_state) = Exit 1 \<and>
   fst (snd (main (listing_env ''abc'') demo_state)) = [] \<and>
   printed (snd (snd (main (listing_env ''abc'') demo_state))) =
     [''Available Cameras:'', ''1. /dev/video0'', ''2. /dev/video1'', ''Invalid input.'']"
proof -
  have none: "fst (list_cameras demo_env demo_state) = []"
    by (simp add: list_cameras_def demo_env_def strip_def)
  have st: "py_print ''No cameras detected.'' (snd (list_cameras demo_env demo_state)) =
      demo_state\<lparr>printed := [''No cameras detected.''], tick := 1\<rparr>"
    by (simp add: py_print_def list_cameras_def demo_state_def)
  have u7: "user_input (listing_env ''7'') = ''7''" and uabc: "user_input (listing_env ''abc'') = ''abc''"
    by (simp_all add: listing_env_def)
  from invalid_startup_exits_nonzero[of demo_env demo_state] none st
  have a: "main demo_env demo_state =
     (Exit 1, [], demo_state\<lparr>printed := [''No cameras detected.''], tick := 1\<rparr>)"
    by simp
  from invalid_startup_exits_nonzero[of "listing_env ''7''" demo_state]
  have b: "main (listing_env ''7'') demo_state = (Exit 1, [],
           py_print ''Invalid selection.''
             (print_cameras [''/dev/video0'', ''/dev/video1'']
                (py_print ''Available Cameras:'' (snd (list_cameras (listing_env ''7'') demo_state)))))"
    by (simp add: listing_cameras listing_getenv u7 typed_7)
  from invalid_startup_exits_nonzero[of "listing_env ''abc''" demo_state]
  have c: "main (listing_env ''abc'') demo_state = (Exit 1, [],
           py_print ''Invalid input.''
             (print_cameras [''/dev/video0'', ''/dev/video1'']
                (py_print ''Available Cameras:'' (snd (list_cameras (listing_env ''abc'') demo_state)))))"
    by (simp add: listing_cameras listing_getenv uabc typed_abc)
  show ?thesis
    unfolding a b c by (simp add: listing_printed)
qed



end
